theory Spec2Isabelle
  imports Complex_Main
begin

section \<open>Errors and randomness\<close>

text \<open>
  The Python exceptions the modelled code can raise, and one more constructor for the
  model itself: the random number generator is a finite list of raw draws, every call of
  the \<open>random\<close> module takes the first one, and \<open>DrawsExhausted\<close> is the result of a
  computation that asks for more draws than the list holds. Python never runs out of
  draws, so \<open>DrawsExhausted\<close> stands for "has not returned within these draws".
\<close>

datatype error = IndexError | KeyError | ValueError | DrawsExhausted

type_synonym rng = "nat list"

text \<open>\<open>random.random()\<close>: a multiple of \<open>2^-53\<close> in \<open>[0, 1)\<close>.\<close>

definition random_random :: "rng \<Rightarrow> error + (real \<times> rng)" where
  "random_random g =
     (case g of
        [] \<Rightarrow> Inl DrawsExhausted
      | k # g' \<Rightarrow> Inr (real (k mod 2 ^ 53) / 2 ^ 53, g'))"

text \<open>
  \<open>random.randrange(start, stop, step)\<close>: \<open>start + step * randbelow(n)\<close> for the
  number \<open>n\<close> of elements of the range, ValueError when the range is empty or the
  step is zero. Python's \<open>//\<close> rounds down, as \<open>div\<close> on \<open>int\<close> does.
\<close>

definition randrange :: "int \<Rightarrow> int \<Rightarrow> int \<Rightarrow> rng \<Rightarrow> error + (int \<times> rng)" where
  "randrange start stop step g =
     (if step = 0 then Inl ValueError
      else
        let n_elems = (if step > 0 then (stop - start + step - 1) div step
                       else (stop - start + step + 1) div step)
        in if n_elems \<le> 0 then Inl ValueError
           else (case g of
                   [] \<Rightarrow> Inl DrawsExhausted
                 | k # g' \<Rightarrow> Inr (start + step * (int k mod n_elems), g')))"

text \<open>\<open>random.randint(a, b)\<close> is \<open>randrange(a, b + 1)\<close>.\<close>

definition randint :: "int \<Rightarrow> int \<Rightarrow> rng \<Rightarrow> error + (int \<times> rng)" where
  "randint a b g = randrange a (b + 1) 1 g"

text \<open>\<open>random.choice(seq)\<close>: IndexError on an empty sequence.\<close>

definition choice :: "'a list \<Rightarrow> rng \<Rightarrow> error + ('a \<times> rng)" where
  "choice seq g =
     (if seq = [] then Inl IndexError
      else (case g of
              [] \<Rightarrow> Inl DrawsExhausted
            | k # g' \<Rightarrow> Inr (seq ! (k mod length seq), g')))"

section \<open>game.py\<close>

text \<open>
  The fields that only the renderer reads (the pygame screen and clock, the snake's two
  constant colours) are left out of the records; every other field is kept.
\<close>

datatype Direction = UP | DOWN | LEFT | RIGHT

fun direction_value :: "Direction \<Rightarrow> int \<times> int" where
  "direction_value UP = (0, -1)"
| "direction_value DOWN = (0, 1)"
| "direction_value LEFT = (-1, 0)"
| "direction_value RIGHT = (1, 0)"

record Snake =
  body :: "(int \<times> int) list"
  direction :: Direction
  block_size :: int
  growth_pending :: bool

definition Snake_init :: "int \<times> int \<Rightarrow> int \<Rightarrow> Snake" where
  "Snake_init start_pos bs =
     \<lparr>body = [start_pos], direction = RIGHT, Snake.block_size = bs, growth_pending = False\<rparr>"

text \<open>\<open>Snake.move\<close>: \<open>self.body[0]\<close> raises IndexError on an empty body.\<close>

definition move :: "Snake \<Rightarrow> error + Snake" where
  "move s =
     (case body s of
        [] \<Rightarrow> Inl IndexError
      | current_head # _ \<Rightarrow>
          (case direction_value (direction s) of
             (dx, dy) \<Rightarrow>
               let new_head = (fst current_head + dx * Snake.block_size s,
                               snd current_head + dy * Snake.block_size s);
                   body1 = new_head # body s
               in if \<not> growth_pending s then Inr (s\<lparr>body := butlast body1\<rparr>)
                  else Inr (s\<lparr>body := body1, growth_pending := False\<rparr>)))"

definition grow :: "Snake \<Rightarrow> Snake" where
  "grow s = s\<lparr>growth_pending := True\<rparr>"

definition check_collision :: "Snake \<Rightarrow> int \<Rightarrow> int \<Rightarrow> error + bool" where
  "check_collision s w h =
     (case body s of
        [] \<Rightarrow> Inl IndexError
      | head # rest \<Rightarrow>
          if fst head < 0 \<or> fst head \<ge> w \<or> snd head < 0 \<or> snd head \<ge> h then Inr True
          else if head \<in> set rest then Inr True
          else Inr False)"

record Fruit =
  block_size :: int
  width :: int
  height :: int
  position :: "int \<times> int"
  colors :: "(nat \<times> nat \<times> nat) list"
  color :: "nat \<times> nat \<times> nat"
  points :: int

text \<open>\<open>Fruit.respawn\<close>: two calls of \<open>randrange\<close> and one of \<open>choice\<close>, in this order.\<close>

definition respawn :: "Fruit \<Rightarrow> rng \<Rightarrow> error + (Fruit \<times> rng)" where
  "respawn f g =
     (let min_x = Fruit.block_size f * 2;
          max_x = Fruit.width f - Fruit.block_size f * 2;
          min_y = Fruit.block_size f * 2;
          max_y = Fruit.height f - Fruit.block_size f * 2
      in case randrange min_x max_x (Fruit.block_size f) g of
           Inl e \<Rightarrow> Inl e
         | Inr (x, g1) \<Rightarrow>
             (case randrange min_y max_y (Fruit.block_size f) g1 of
                Inl e \<Rightarrow> Inl e
              | Inr (y, g2) \<Rightarrow>
                  (case choice (colors f) g2 of
                     Inl e \<Rightarrow> Inl e
                   | Inr (c, g3) \<Rightarrow> Inr (f\<lparr>position := (x, y), color := c\<rparr>, g3))))"

definition Fruit_init :: "int \<Rightarrow> int \<Rightarrow> int \<Rightarrow> rng \<Rightarrow> error + (Fruit \<times> rng)" where
  "Fruit_init w h bs g =
     (let cs = [(255, 0, 0), (255, 165, 0), (255, 215, 0), (148, 0, 211)]
      in case choice cs g of
           Inl e \<Rightarrow> Inl e
         | Inr (c, g1) \<Rightarrow>
             respawn \<lparr>Fruit.block_size = bs, Fruit.width = w, Fruit.height = h,
                      position = (0, 0), colors = cs, color = c, points = 1\<rparr> g1)"

record Game =
  width :: int
  height :: int
  block_size :: int
  visible :: bool
  snake :: Snake
  fruit :: Fruit
  score :: int
  game_over :: bool
  speed :: int

definition Game_init :: "int \<Rightarrow> int \<Rightarrow> bool \<Rightarrow> rng \<Rightarrow> error + (Game \<times> rng)" where
  "Game_init w h vis g =
     (let spawn_pos = (w div 2, h div 2)
      in case Fruit_init w h 20 g of
           Inl e \<Rightarrow> Inl e
         | Inr (fr, g1) \<Rightarrow>
             Inr (\<lparr>Game.width = w, Game.height = h, Game.block_size = 20, visible = vis,
                   snake = Snake_init spawn_pos 20, fruit = fr,
                   score = 0, game_over = False, speed = 10\<rparr>, g1))"

text \<open>
  The loop \<open>while self.fruit.position in self.snake.body: self.fruit.respawn()\<close> of
  \<open>Game.update\<close>. Every round takes three draws, so the recursion ends with the draws.
\<close>

lemma randrange_draws:
  "randrange a b c g = Inr (x, g') \<Longrightarrow> length g = Suc (length g')"
  by (auto simp: randrange_def Let_def split: if_splits list.splits)

lemma choice_draws:
  "choice xs g = Inr (x, g') \<Longrightarrow> length g = Suc (length g')"
  by (auto simp: choice_def split: if_splits list.splits)

lemma respawn_draws:
  "respawn f g = Inr (f', g') \<Longrightarrow> length g = length g' + 3"
  by (auto simp: respawn_def Let_def split: sum.splits prod.splits
           dest!: randrange_draws choice_draws)

function respawn_while_on_snake :: "Fruit \<Rightarrow> (int \<times> int) list \<Rightarrow> rng \<Rightarrow> error + (Fruit \<times> rng)" where
  "respawn_while_on_snake f bd g =
     (if position f \<in> set bd then
        (case respawn f g of
           Inl e \<Rightarrow> Inl e
         | Inr (f', g') \<Rightarrow> respawn_while_on_snake f' bd g')
      else Inr (f, g))"
  by pat_completeness auto
termination
  by (relation "measure (\<lambda>(f, bd, g). length g)") (auto dest: respawn_draws)

declare respawn_while_on_snake.simps [simp del]

definition update :: "Game \<Rightarrow> rng \<Rightarrow> error + (Game \<times> rng)" where
  "update gm g =
     (if game_over gm then Inr (gm, g)
      else
        case move (snake gm) of
          Inl e \<Rightarrow> Inl e
        | Inr s1 \<Rightarrow>
            (case check_collision s1 (Game.width gm) (Game.height gm) of
               Inl e \<Rightarrow> Inl e
             | Inr collided \<Rightarrow>
                 if collided then Inr (gm\<lparr>snake := s1, game_over := True\<rparr>, g)
                 else
                   (case body s1 of
                      [] \<Rightarrow> Inl IndexError
                    | head # _ \<Rightarrow>
                        if head = position (fruit gm) then
                          (let s2 = grow s1;
                               score1 = score gm + points (fruit gm);
                               speed1 = min 20 (10 + score1 div 10)
                           in case respawn (fruit gm) g of
                                Inl e \<Rightarrow> Inl e
                              | Inr (f1, g1) \<Rightarrow>
                                  (case respawn_while_on_snake f1 (body s2) g1 of
                                     Inl e \<Rightarrow> Inl e
                                   | Inr (f2, g2) \<Rightarrow>
                                       Inr (gm\<lparr>snake := s2, fruit := f2, score := score1,
                                               speed := speed1\<rparr>, g2)))
                        else Inr (gm\<lparr>snake := s1\<rparr>, g))))"

definition reset :: "Game \<Rightarrow> rng \<Rightarrow> error + (Game \<times> rng)" where
  "reset gm g =
     (let spawn_pos = (Game.width gm div 2, Game.height gm div 2);
          s = Snake_init spawn_pos (Game.block_size gm)
      in case respawn (fruit gm) g of
           Inl e \<Rightarrow> Inl e
         | Inr (f1, g1) \<Rightarrow>
             Inr (gm\<lparr>snake := s, fruit := f1, score := 0, game_over := False, speed := 10\<rparr>, g1))"

section \<open>Python lists and numpy\<close>

text \<open>
  \<open>xs[i]\<close> and \<open>xs[i] = v\<close> on a Python list: a negative index counts from the end,
  an index outside the list raises IndexError.
\<close>

definition list_index :: "'a list \<Rightarrow> int \<Rightarrow> error + nat" where
  "list_index xs i =
     (let j = (if i < 0 then i + int (length xs) else i)
      in if j < 0 \<or> int (length xs) \<le> j then Inl IndexError else Inr (nat j))"

definition list_get :: "'a list \<Rightarrow> int \<Rightarrow> error + 'a" where
  "list_get xs i = (case list_index xs i of Inl e \<Rightarrow> Inl e | Inr j \<Rightarrow> Inr (xs ! j))"

definition list_set :: "'a list \<Rightarrow> int \<Rightarrow> 'a \<Rightarrow> error + 'a list" where
  "list_set xs i v = (case list_index xs i of Inl e \<Rightarrow> Inl e | Inr j \<Rightarrow> Inr (xs[j := v]))"

text \<open>\<open>d[k]\<close> on a dict: KeyError on a missing key.\<close>

definition dict_get :: "('k \<rightharpoonup> 'v) \<Rightarrow> 'k \<Rightarrow> error + 'v" where
  "dict_get d k = (case d k of None \<Rightarrow> Inl KeyError | Some v \<Rightarrow> Inr v)"

text \<open>
  \<open>np.max\<close> and \<open>np.argmax\<close> on a list of numbers: ValueError on an empty one;
  \<open>np.argmax\<close> scans from the left and moves only to a strictly greater value.
\<close>

definition np_max :: "real list \<Rightarrow> error + real" where
  "np_max xs = (case xs of [] \<Rightarrow> Inl ValueError | x # rest \<Rightarrow> Inr (fold max rest x))"

fun argmax_scan :: "nat \<Rightarrow> real \<Rightarrow> nat \<Rightarrow> real list \<Rightarrow> nat" where
  "argmax_scan best_i best_v i [] = best_i"
| "argmax_scan best_i best_v i (x # xs) =
     (if best_v < x then argmax_scan i x (Suc i) xs
      else argmax_scan best_i best_v (Suc i) xs)"

definition np_argmax :: "real list \<Rightarrow> error + int" where
  "np_argmax xs =
     (case xs of [] \<Rightarrow> Inl ValueError | x # rest \<Rightarrow> Inr (int (argmax_scan 0 x 1 rest)))"

section \<open>ai.py\<close>

text \<open>
  Python's floats are modelled as exact reals: the theorems below are about the
  arithmetic the code writes down, not about its rounding. The logger is left out.
\<close>

text \<open>
  The state tuple of \<open>get_state\<close>: three danger flags, four flags for where the fruit
  is, four flags for the heading. A tuple nests to the right, so the three synonyms
  together are the flat tuple of eleven booleans.
\<close>

type_synonym heading_flags = "bool \<times> bool \<times> bool \<times> bool"

type_synonym fruit_and_heading_flags = "bool \<times> bool \<times> bool \<times> bool \<times> heading_flags"

type_synonym EncodedState = "bool \<times> bool \<times> bool \<times> fruit_and_heading_flags"

record SnakeAI =
  learning_rate :: real
  discount_factor :: real
  epsilon :: real
  epsilon_decay :: real
  epsilon_min :: real
  q_table :: "EncodedState \<rightharpoonup> real list"

definition SnakeAI_init :: SnakeAI where
  "SnakeAI_init =
     \<lparr>learning_rate = 0.05, discount_factor = 0.95, epsilon = 1.0,
      epsilon_decay = 0.998, epsilon_min = 0.01, q_table = Map.empty\<rparr>"

subsection \<open>get_state\<close>

text \<open>The three wall checks of \<open>get_state\<close> (lines 44 to 59).\<close>

definition wall_dangers :: "Direction \<Rightarrow> int \<times> int \<Rightarrow> int \<Rightarrow> int \<Rightarrow> int \<Rightarrow> bool \<times> bool \<times> bool" where
  "wall_dangers current_dir snake_head bs w h =
     (let hx = fst snake_head; hy = snd snake_head
      in case current_dir of
           UP \<Rightarrow> (hy - bs < 0, hx - bs < 0, hx + bs \<ge> w)
         | DOWN \<Rightarrow> (hy + bs \<ge> h, hx + bs \<ge> w, hx - bs < 0)
         | LEFT \<Rightarrow> (hx - bs < 0, hy + bs \<ge> h, hy - bs < 0)
         | RIGHT \<Rightarrow> (hx + bs \<ge> w, hy - bs < 0, hy + bs \<ge> h))"

text \<open>One round of the loop over \<open>game.snake.body[1:]\<close> (lines 62 to 90).\<close>

definition segment_dangers ::
  "Direction \<Rightarrow> int \<times> int \<Rightarrow> int \<Rightarrow> int \<times> int \<Rightarrow> bool \<times> bool \<times> bool \<Rightarrow> bool \<times> bool \<times> bool" where
  "segment_dangers current_dir snake_head bs segment flags =
     (case flags of
        (danger_straight, danger_left, danger_right) \<Rightarrow>
          let hx = fst snake_head; hy = snd snake_head
          in case current_dir of
               UP \<Rightarrow>
                 (if (hx, hy - bs) = segment then True else danger_straight,
                  if (hx - bs, hy) = segment then True else danger_left,
                  if (hx + bs, hy) = segment then True else danger_right)
             | DOWN \<Rightarrow>
                 (if (hx, hy + bs) = segment then True else danger_straight,
                  if (hx + bs, hy) = segment then True else danger_left,
                  if (hx - bs, hy) = segment then True else danger_right)
             | LEFT \<Rightarrow>
                 (if (hx - bs, hy) = segment then True else danger_straight,
                  if (hx, hy + bs) = segment then True else danger_left,
                  if (hx, hy - bs) = segment then True else danger_right)
             | RIGHT \<Rightarrow>
                 (if (hx + bs, hy) = segment then True else danger_straight,
                  if (hx, hy - bs) = segment then True else danger_left,
                  if (hx, hy + bs) = segment then True else danger_right))"

definition get_state :: "Game \<Rightarrow> error + EncodedState" where
  "get_state gm =
     (case body (snake gm) of
        [] \<Rightarrow> Inl IndexError
      | snake_head # segments \<Rightarrow>
          let fruit_pos = position (fruit gm);
              rel_x = fst fruit_pos - fst snake_head;
              rel_y = snd fruit_pos - snd snake_head;
              current_dir = direction (snake gm);
              walls = wall_dangers current_dir snake_head (Game.block_size gm)
                        (Game.width gm) (Game.height gm);
              dangers = fold (segment_dangers current_dir snake_head (Game.block_size gm))
                          segments walls
          in case dangers of
               (danger_straight, danger_left, danger_right) \<Rightarrow>
                 Inr (danger_straight, danger_left, danger_right,
                      rel_x > 0, rel_x < 0, rel_y > 0, rel_y < 0,
                      current_dir = UP, current_dir = DOWN,
                      current_dir = LEFT, current_dir = RIGHT))"

subsection \<open>get_action\<close>

definition get_action :: "SnakeAI \<Rightarrow> EncodedState \<Rightarrow> rng \<Rightarrow> error + (int \<times> SnakeAI \<times> rng)" where
  "get_action ai state g =
     (case random_random g of
        Inl e \<Rightarrow> Inl e
      | Inr (r, g1) \<Rightarrow>
          if r < epsilon ai then
            (case randint 0 2 g1 of
               Inl e \<Rightarrow> Inl e
             | Inr (a, g2) \<Rightarrow> Inr (a, ai, g2))
          else
            let ai1 = (if q_table ai state = None
                       then ai\<lparr>q_table := (q_table ai)(state \<mapsto> [0, 0, 0])\<rparr> else ai)
            in case dict_get (q_table ai1) state of
                 Inl e \<Rightarrow> Inl e
               | Inr row \<Rightarrow>
                   (case np_argmax row of
                      Inl e \<Rightarrow> Inl e
                    | Inr a \<Rightarrow> Inr (a, ai1, g1)))"

subsection \<open>apply_action\<close>

text \<open>The assignment \<open>game.snake.direction = d\<close>.\<close>

definition set_direction :: "Game \<Rightarrow> Direction \<Rightarrow> Game" where
  "set_direction gm d = gm\<lparr>snake := (snake gm)\<lparr>direction := d\<rparr>\<rparr>"

definition apply_action :: "Game \<Rightarrow> int \<Rightarrow> Game" where
  "apply_action gm action =
     (let current_direction = direction (snake gm)
      in if action = 1 then
           (if current_direction = UP then set_direction gm LEFT
            else if current_direction = LEFT then set_direction gm DOWN
            else if current_direction = DOWN then set_direction gm RIGHT
            else set_direction gm UP)
         else if action = 2 then
           (if current_direction = UP then set_direction gm RIGHT
            else if current_direction = RIGHT then set_direction gm DOWN
            else if current_direction = DOWN then set_direction gm LEFT
            else set_direction gm UP)
         else gm)"

subsection \<open>train\<close>

text \<open>The reward of one tick and the stagnation counter (lines 174 to 184).\<close>

definition reward_policy :: "Game \<Rightarrow> int \<Rightarrow> int \<Rightarrow> int \<Rightarrow> real \<times> int \<times> Game" where
  "reward_policy gm old_score new_score steps_without_fruit =
     (if game_over gm then (-10, steps_without_fruit, gm)
      else if new_score > old_score then (10, 0, gm)
      else
        let steps1 = steps_without_fruit + 1
        in if steps1 > 100 then (-10, steps1, gm\<lparr>game_over := True\<rparr>)
           else (0, steps1, gm))"

text \<open>The update of the Q-table (lines 186 to 196).\<close>

definition bellman_update ::
  "SnakeAI \<Rightarrow> EncodedState \<Rightarrow> int \<Rightarrow> real \<Rightarrow> EncodedState \<Rightarrow> error + SnakeAI" where
  "bellman_update ai old_state action reward new_state =
     (let q1 = (if q_table ai old_state = None
                then (q_table ai)(old_state \<mapsto> [0, 0, 0]) else q_table ai);
          q2 = (if q1 new_state = None then q1(new_state \<mapsto> [0, 0, 0]) else q1)
      in case dict_get q2 old_state of
           Inl e \<Rightarrow> Inl e
         | Inr old_row \<Rightarrow>
             (case list_get old_row action of
                Inl e \<Rightarrow> Inl e
              | Inr old_q \<Rightarrow>
                  (case dict_get q2 new_state of
                     Inl e \<Rightarrow> Inl e
                   | Inr new_row \<Rightarrow>
                       (case np_max new_row of
                          Inl e \<Rightarrow> Inl e
                        | Inr next_max \<Rightarrow>
                            let new_q = old_q + learning_rate ai *
                                  (reward + discount_factor ai * next_max - old_q)
                            in case list_set old_row action new_q of
                                 Inl e \<Rightarrow> Inl e
                               | Inr row \<Rightarrow> Inr (ai\<lparr>q_table := q2(old_state \<mapsto> row)\<rparr>)))))"

text \<open>
  What one round of the training loop did: the transition it learned from and the two
  scores, whether \<open>game.update()\<close> itself ended the game, the counter
  \<open>steps_without_fruit\<close> after the round, and the table the round started with. The
  source keeps these in local variables; the model returns them so that theorems can
  speak about them.
\<close>

record Transition =
  tr_old_state :: EncodedState
  tr_old_score :: int
  tr_action :: int
  tr_new_state :: EncodedState
  tr_new_score :: int
  tr_terminal :: bool
  tr_reward :: real
  tr_steps_without_fruit :: int
  tr_table_before :: "EncodedState \<rightharpoonup> real list"

text \<open>One round of \<open>while not game.game_over\<close> (lines 159 to 196).\<close>

definition train_tick ::
  "SnakeAI \<Rightarrow> Game \<Rightarrow> int \<Rightarrow> rng \<Rightarrow> error + (SnakeAI \<times> Game \<times> int \<times> rng \<times> Transition)" where
  "train_tick ai gm steps_without_fruit g =
     (case get_state gm of
        Inl e \<Rightarrow> Inl e
      | Inr old_state \<Rightarrow>
          let old_score = score gm
          in case get_action ai old_state g of
               Inl e \<Rightarrow> Inl e
             | Inr (action, ai1, g1) \<Rightarrow>
                 (case update (apply_action gm action) g1 of
                    Inl e \<Rightarrow> Inl e
                  | Inr (gm1, g2) \<Rightarrow>
                      (case get_state gm1 of
                         Inl e \<Rightarrow> Inl e
                       | Inr new_state \<Rightarrow>
                           (case reward_policy gm1 old_score (score gm1) steps_without_fruit of
                              (reward, steps1, gm2) \<Rightarrow>
                                (case bellman_update ai1 old_state action reward new_state of
                                   Inl e \<Rightarrow> Inl e
                                 | Inr ai2 \<Rightarrow>
                                     Inr (ai2, gm2, steps1, g2,
                                          \<lparr>tr_old_state = old_state, tr_old_score = old_score,
                                           tr_action = action, tr_new_state = new_state,
                                           tr_new_score = score gm1,
                                           tr_terminal = game_over gm1, tr_reward = reward,
                                           tr_steps_without_fruit = steps1,
                                           tr_table_before = q_table ai\<rparr>))))))"

text \<open>Every round takes at least the draw of \<open>random.random()\<close>.\<close>

lemma respawn_while_on_snake_draws:
  "respawn_while_on_snake f bd g = Inr (f', g') \<Longrightarrow> length g' \<le> length g"
proof (induction f bd g rule: respawn_while_on_snake.induct)
  case (1 f bd g)
  show ?case
  proof (cases "position f \<in> set bd")
    case False
    with "1.prems" show ?thesis
      by (simp add: respawn_while_on_snake.simps [of f bd g])
  next
    case True
    with "1.prems" obtain f1 g1 where r: "respawn f g = Inr (f1, g1)"
      and w: "respawn_while_on_snake f1 bd g1 = Inr (f', g')"
      by (simp add: respawn_while_on_snake.simps [of f bd g] split: sum.splits prod.splits)
    from "1.IH" [OF True r refl w] respawn_draws [OF r] show ?thesis by simp
  qed
qed

lemma update_draws: "update gm g = Inr (gm', g') \<Longrightarrow> length g' \<le> length g"
  by (auto simp: update_def Let_def split: if_splits sum.splits list.splits prod.splits
           dest!: respawn_draws respawn_while_on_snake_draws)

lemma get_action_draws:
  "get_action ai st g = Inr (a, ai', g') \<Longrightarrow> length g' < length g"
  by (auto simp: get_action_def random_random_def randint_def Let_def
           split: if_splits sum.splits list.splits prod.splits dest!: randrange_draws)

lemma train_tick_draws:
  "train_tick ai gm n g = Inr (ai', gm', n', g', t) \<Longrightarrow> length g' < length g"
  by (auto simp: train_tick_def Let_def split: sum.splits prod.splits
           dest!: get_action_draws update_draws)

text \<open>
  The loop \<open>while not game.game_over\<close>, with the list of its rounds' transitions.
\<close>

function train_loop ::
  "SnakeAI \<Rightarrow> Game \<Rightarrow> int \<Rightarrow> rng \<Rightarrow> error + (SnakeAI \<times> Game \<times> int \<times> rng \<times> Transition list)" where
  "train_loop ai gm steps_without_fruit g =
     (if \<not> game_over gm then
        (case train_tick ai gm steps_without_fruit g of
           Inl e \<Rightarrow> Inl e
         | Inr (ai1, gm1, steps1, g1, t) \<Rightarrow>
             (case train_loop ai1 gm1 steps1 g1 of
                Inl e \<Rightarrow> Inl e
              | Inr (ai2, gm2, steps2, g2, ts) \<Rightarrow> Inr (ai2, gm2, steps2, g2, t # ts)))
      else Inr (ai, gm, steps_without_fruit, g, []))"
  by pat_completeness auto
termination
  by (relation "measure (\<lambda>(ai, gm, n, g). length g)") (auto dest: train_tick_draws)

declare train_loop.simps [simp del]

text \<open>The decay of epsilon (lines 201 to 203).\<close>

definition decay_epsilon :: "SnakeAI \<Rightarrow> SnakeAI" where
  "decay_epsilon ai =
     (if epsilon ai > epsilon_min ai then ai\<lparr>epsilon := epsilon ai * epsilon_decay ai\<rparr>
      else ai)"

text \<open>
  One round of \<open>for game_num in range(num_games)\<close> (lines 153 to 203): the learner
  after it, the game as the round left it, and the transitions of the round.
\<close>

definition train_game ::
  "SnakeAI \<Rightarrow> rng \<Rightarrow> error + (SnakeAI \<times> Game \<times> rng \<times> Transition list)" where
  "train_game ai g =
     (case Game_init 800 600 False g of
        Inl e \<Rightarrow> Inl e
      | Inr (gm, g1) \<Rightarrow>
          (case train_loop ai gm 0 g1 of
             Inl e \<Rightarrow> Inl e
           | Inr (ai1, gm1, steps1, g2, ts) \<Rightarrow> Inr (decay_epsilon ai1, gm1, g2, ts)))"

text \<open>\<open>SnakeAI.train\<close>: \<open>num_games\<close> episodes, one after the other.\<close>

fun train :: "SnakeAI \<Rightarrow> nat \<Rightarrow> rng \<Rightarrow> error + (SnakeAI \<times> rng)" where
  "train ai 0 g = Inr (ai, g)"
| "train ai (Suc num_games) g =
     (case train_game ai g of
        Inl e \<Rightarrow> Inl e
      | Inr (ai1, gm1, g1, ts) \<Rightarrow> train ai1 num_games g1)"

section \<open>Inputs and notions for the properties\<close>

text \<open>
  The game \<open>Game(visible=False)\<close> builds, as a function of the place its fruit was
  drawn at: 800 by 600, cells of 20, the snake one cell long at the centre, heading right.
\<close>

definition start_game :: "int \<times> int \<Rightarrow> Game" where
  "start_game fruit_pos =
     \<lparr>Game.width = 800, Game.height = 600, Game.block_size = 20, visible = False,
      snake = \<lparr>body = [(400, 300)], direction = RIGHT, Snake.block_size = 20,
               growth_pending = False\<rparr>,
      fruit = \<lparr>Fruit.block_size = 20, Fruit.width = 800, Fruit.height = 600,
               position = fruit_pos,
               colors = [(255, 0, 0), (255, 165, 0), (255, 215, 0), (148, 0, 211)],
               color = (255, 0, 0), points = 1\<rparr>,
      score = 0, game_over = False, speed = 10\<rparr>"

text \<open>Two encoded states, to have concrete keys of the Q-table.\<close>

definition example_state :: EncodedState where
  "example_state = (False, False, False, True, False, False, True, False, False, False, True)"

definition other_state :: EncodedState where
  "other_state = (True, False, False, True, False, False, True, False, False, False, True)"

text \<open>
  The row the table holds for a state once the statement
  \<open>if state not in self.q_table: self.q_table[state] = [0, 0, 0]\<close> has run, and the
  table after that statement.
\<close>

definition row_or_zeros :: "(EncodedState \<rightharpoonup> real list) \<Rightarrow> EncodedState \<Rightarrow> real list" where
  "row_or_zeros q s = (case q s of None \<Rightarrow> [0, 0, 0] | Some row \<Rightarrow> row)"

definition ensure_state :: "(EncodedState \<rightharpoonup> real list) \<Rightarrow> EncodedState \<Rightarrow> (EncodedState \<rightharpoonup> real list)" where
  "ensure_state q s = (if q s = None then q(s \<mapsto> [0, 0, 0]) else q)"




text \<open>
  The draws of two episodes. In both the fruit is put at (40, 40), epsilon is 1, so every
  \<open>random.random()\<close> (the draw 0) takes the random branch. In the first the action drawn
  is always 0: the snake runs straight into the right wall. In the second it is always 1:
  the snake turns left on every tick and goes round four cells.
\<close>

definition wall_draws :: rng where
  "wall_draws = [0, 0, 0, 0] @ concat (replicate 20 [0, 0])"


lemma Game_init_start_game:
  "kx < 36 \<Longrightarrow> ky < 26 \<Longrightarrow>
   Game_init 800 600 False (c # kx # ky # 0 # g) =
     Inr (start_game (40 + 20 * int kx, 40 + 20 * int ky), g)"
  by (simp add: Game_init_def Fruit_init_def respawn_def randrange_def choice_def
        start_game_def Snake_init_def Let_def)

section \<open>apply_action\<close>

text \<open>
  Claim C9. For every heading, a left turn followed by a right turn gives the heading
  back, and so does a right turn followed by a left turn, and so do four turns to the
  same side. The game as a whole is the one before, so the heading in particular.
\<close>

theorem apply_action_turns_cancel:
  "apply_action (apply_action gm 1) 2 = gm \<and>
   apply_action (apply_action gm 2) 1 = gm \<and>
   apply_action (apply_action (apply_action (apply_action gm 1) 1) 1) 1 = gm \<and>
   apply_action (apply_action (apply_action (apply_action gm 2) 2) 2) 2 = gm"
  by (cases "direction (snake gm)") (simp_all add: apply_action_def set_direction_def)

text \<open>
  Claim C10. An action other than 1 and 2 (the action 0 "straight", and every integer
  out of range) leaves the game as it is; and whatever the action, the game after
  \<open>apply_action\<close> is the game before with at most the snake's heading changed.
\<close>

theorem apply_action_frame:
  "(action \<noteq> 1 \<and> action \<noteq> 2 \<longrightarrow> apply_action gm action = gm) \<and>
   apply_action gm action =
     gm\<lparr>snake := (snake gm)\<lparr>direction := direction (snake (apply_action gm action))\<rparr>\<rparr>"
  by (simp add: apply_action_def set_direction_def Let_def)

theorem apply_action_frame_witness:
  "apply_action (start_game (40, 40)) 0 = start_game (40, 40) \<and>
   apply_action (start_game (40, 40)) 7 = start_game (40, 40) \<and>
   apply_action (start_game (40, 40)) (- 1) = start_game (40, 40)"
  using apply_action_frame [of 0 "start_game (40, 40)"]
    apply_action_frame [of 7 "start_game (40, 40)"]
    apply_action_frame [of "- 1" "start_game (40, 40)"]
  by simp

section \<open>get_state\<close>

text \<open>
  Claim C7. The snake is one cell long at the centre of the grid and heads right, the
  fruit is one cell to the right and one cell up (a smaller y), and the grid leaves a cell
  free to the right of, above and below the centre. Then the encoded state has its three
  danger flags false, "fruit is to the right" and "fruit is above" true, the other two
  fruit flags false, and of the four heading flags only the one for RIGHT true.
\<close>

theorem get_state_center_heading_right:
  assumes "body (snake gm) = [(Game.width gm div 2, Game.height gm div 2)]"
    and "direction (snake gm) = RIGHT"
    and "position (fruit gm) =
           (Game.width gm div 2 + Game.block_size gm, Game.height gm div 2 - Game.block_size gm)"
    and "0 < Game.block_size gm"
    and "Game.width gm div 2 + Game.block_size gm < Game.width gm"
    and "Game.block_size gm \<le> Game.height gm div 2"
    and "Game.height gm div 2 + Game.block_size gm < Game.height gm"
  shows "get_state gm =
           Inr (False, False, False, True, False, False, True, False, False, False, True)"
  using assms by (simp add: get_state_def wall_dangers_def Let_def)

theorem get_state_center_heading_right_witness:
  "get_state (start_game (420, 280)) =
     Inr (False, False, False, True, False, False, True, False, False, False, True)"
  by (rule get_state_center_heading_right) (simp_all add: start_game_def)

section \<open>The fruit and the snake\<close>

text \<open>
  \<open>Game.update\<close> keeps the fruit off the snake: its loop ends only with the fruit on a
  free cell, and a move onto a cell without the fruit cannot put the snake on it.
\<close>

lemma respawn_while_on_snake_off:
  "respawn_while_on_snake f bd g = Inr (f', g') \<Longrightarrow> position f' \<notin> set bd"
proof (induction f bd g rule: respawn_while_on_snake.induct)
  case (1 f bd g)
  show ?case
  proof (cases "position f \<in> set bd")
    case False
    with "1.prems" show ?thesis
      by (simp add: respawn_while_on_snake.simps [of f bd g])
  next
    case True
    with "1.prems" obtain f1 g1 where r: "respawn f g = Inr (f1, g1)"
      and w: "respawn_while_on_snake f1 bd g1 = Inr (f', g')"
      by (simp add: respawn_while_on_snake.simps [of f bd g] split: sum.splits prod.splits)
    from "1.IH" [OF True r refl w] show ?thesis .
  qed
qed

lemma move_body:
  "move s = Inr s1 \<Longrightarrow>
   \<exists>h. body s1 = h # (if growth_pending s then body s else butlast (body s))"
  by (cases "body s"; cases "direction_value (direction s)")
     (auto simp: move_def Let_def split: if_splits)

lemma update_keeps_fruit_off_snake:
  assumes "update gm g = Inr (gm', g')"
    and "position (fruit gm) \<notin> set (body (snake gm))"
    and "\<not> game_over gm'"
  shows "position (fruit gm') \<notin> set (body (snake gm'))"
proof -
  from assms(1,3) have live: "\<not> game_over gm"
    by (auto simp: update_def)
  with assms(1) obtain s1 where mv: "move (snake gm) = Inr s1"
    by (cases "move (snake gm)") (auto simp: update_def)
  from move_body [OF mv] obtain h where
    b1: "body s1 = h # (if growth_pending (snake gm) then body (snake gm)
                        else butlast (body (snake gm)))"
    by blast
  have tail: "position (fruit gm) \<notin> set (tl (body s1))"
    using assms(2) by (auto simp: b1 dest: in_set_butlastD)
  from assms(1,3) live mv have nc: "check_collision s1 (Game.width gm) (Game.height gm) = Inr False"
    by (cases "check_collision s1 (Game.width gm) (Game.height gm)")
       (auto simp: update_def split: if_splits)
  show ?thesis
  proof (cases "h = position (fruit gm)")
    case False
    with assms(1) live mv nc have "gm' = gm\<lparr>snake := s1\<rparr>"
      by (simp add: update_def b1)
    with False tail show ?thesis by (simp add: b1)
  next
    case True
    with assms(1) live mv nc obtain f1 g1 f2 where
      "respawn (fruit gm) g = Inr (f1, g1)"
      and w: "respawn_while_on_snake f1 (body (grow s1)) g1 = Inr (f2, g')"
      and gm': "gm' = gm\<lparr>snake := grow s1, fruit := f2,
                    score := score gm + points (fruit gm),
                    speed := min 20 (10 + (score gm + points (fruit gm)) div 10)\<rparr>"
      by (auto simp: update_def b1 Let_def split: sum.splits)
    from respawn_while_on_snake_off [OF w] show ?thesis by (simp add: gm')
  qed
qed

text \<open>
  Claim C3. The fruit is drawn again until it is off the snake only in \<open>Game.update\<close>
  (\<open>update_keeps_fruit_off_snake\<close>); \<open>Fruit.__init__\<close> and \<open>Game.reset\<close> call
  \<open>respawn\<close> once and keep what it drew. With the draws 18 and 13 the fruit is put at
  (400, 300), the cell of the snake's head: the new game and the reset game both show the
  fruit on the snake.
\<close>

theorem fruit_spawns_on_snake:
  "(\<exists>gm. Game_init 800 600 False [0, 18, 13, 0] = Inr (gm, []) \<and>
         position (fruit gm) \<in> set (body (snake gm))) \<and>
   (\<exists>gm. reset (start_game (40, 40)) [18, 13, 0] = Inr (gm, []) \<and>
         position (fruit gm) \<in> set (body (snake gm)))"
  by (simp add: Game_init_def Fruit_init_def respawn_def randrange_def choice_def
        reset_def start_game_def Snake_init_def Let_def)

section \<open>get_action\<close>

lemma length_3_cases: "length xs = 3 \<Longrightarrow> \<exists>x y z. xs = [x, y, z]"
  by (cases xs; cases "tl xs"; cases "tl (tl xs)") auto


lemma random_random_nonneg: "random_random (k # g) = Inr (r, g') \<Longrightarrow> 0 \<le> r \<and> r < 1 \<and> g' = g"
  by (auto simp: random_random_def)

text \<open>
  Claim C6. With epsilon equal to 0 the random branch is never taken, whatever
  \<open>random.random()\<close> draws: \<open>get_action\<close> takes that one draw and no other, leaves
  the table with the state in it (a row of three zeros if it was absent), and returns an
  index of the state's three values that holds their maximum and is the first to do so.
\<close>

theorem get_action_greedy:
  assumes "epsilon ai = 0"
    and "length (row_or_zeros (q_table ai) state) = 3"
  shows "\<exists>a<3. get_action ai state (k # g) =
            Inr (int a, ai\<lparr>q_table := ensure_state (q_table ai) state\<rparr>, g) \<and>
          (\<forall>j<3. row_or_zeros (q_table ai) state ! j \<le> row_or_zeros (q_table ai) state ! a) \<and>
          (\<forall>j<a. row_or_zeros (q_table ai) state ! j < row_or_zeros (q_table ai) state ! a)"
proof -
  from assms(2) obtain x y z where row: "row_or_zeros (q_table ai) state = [x, y, z]"
    using length_3_cases by blast
  have no_random: "\<not> real (k mod 2 ^ 53) / 2 ^ 53 < epsilon ai"
    using assms(1) by simp
  have ga: "get_action ai state (k # g) =
      Inr (int (argmax_scan 0 x 1 [y, z]), ai\<lparr>q_table := ensure_state (q_table ai) state\<rparr>, g)"
    using row no_random
    by (cases "q_table ai state")
       (simp_all add: get_action_def random_random_def dict_get_def np_argmax_def
          ensure_state_def row_or_zeros_def Let_def del: argmax_scan.simps)
  show ?thesis
    unfolding ga row
    by (rule exI [of _ "argmax_scan 0 x 1 [y, z]"])
       (auto simp: less_Suc_eq numeral_3_eq_3 numeral_2_eq_2)
qed

theorem get_action_greedy_witness:
  "get_action (SnakeAI_init\<lparr>epsilon := 0, q_table := [example_state \<mapsto> [1, 5, 5]]\<rparr>)
     example_state [7] =
   Inr (1, SnakeAI_init\<lparr>epsilon := 0, q_table := [example_state \<mapsto> [1, 5, 5]]\<rparr>, [])"
proof -
  let ?ai = "SnakeAI_init\<lparr>epsilon := 0, q_table := [example_state \<mapsto> [1, 5, 5]]\<rparr>"
  have e: "epsilon ?ai = 0" by simp
  have row: "row_or_zeros (q_table ?ai) example_state = [1, 5, 5]"
    by (simp add: row_or_zeros_def)
  have l: "length (row_or_zeros (q_table ?ai) example_state) = 3"
    by (simp add: row_or_zeros_def)
  from get_action_greedy [OF e l, of 7 "[]"] obtain a where a: "a < 3"
    and ga: "get_action ?ai example_state [7] =
               Inr (int a, ?ai\<lparr>q_table := ensure_state (q_table ?ai) example_state\<rparr>, [])"
    and mx: "\<forall>j<3. [1, 5, 5 :: real] ! j \<le> [1, 5, 5] ! a"
    and fst: "\<forall>j<a. [1, 5, 5 :: real] ! j < [1, 5, 5] ! a"
    unfolding row by blast
  from a have "a = 0 \<or> a = 1 \<or> a = 2" by auto
  moreover have "a \<noteq> 0"
  proof
    assume "a = 0"
    with mx [rule_format, of 1] show False by simp
  qed
  moreover have "a \<noteq> 2"
  proof
    assume "a = 2"
    with fst [rule_format, of 1] show False by simp
  qed
  ultimately have "a = 1" by blast
  with ga show ?thesis by (simp add: ensure_state_def)
qed

section \<open>The update of the Q-table\<close>

lemma np_max_Max:
  assumes "xs \<noteq> []"
  shows "np_max xs = Inr (Max (set xs))"
proof (cases xs)
  case Nil
  then show ?thesis using assms by simp
next
  case (Cons x rest)
  then show ?thesis using Max.set_eq_fold [of x rest] by (simp add: np_max_def)
qed

lemma list_index_in_range:
  "0 \<le> i \<Longrightarrow> i < int (length xs) \<Longrightarrow> list_index xs i = Inr (nat i)"
  by (simp add: list_index_def)

lemma bellman_update_ensure:
  "bellman_update ai old_state action reward new_state =
     (case dict_get (ensure_state (ensure_state (q_table ai) old_state) new_state) old_state of
        Inl e \<Rightarrow> Inl e
      | Inr old_row \<Rightarrow>
          (case list_get old_row action of
             Inl e \<Rightarrow> Inl e
           | Inr old_q \<Rightarrow>
               (case dict_get (ensure_state (ensure_state (q_table ai) old_state) new_state)
                       new_state of
                  Inl e \<Rightarrow> Inl e
                | Inr new_row \<Rightarrow>
                    (case np_max new_row of
                       Inl e \<Rightarrow> Inl e
                     | Inr next_max \<Rightarrow>
                         (case list_set old_row action
                                 (old_q + learning_rate ai *
                                    (reward + discount_factor ai * next_max - old_q)) of
                            Inl e \<Rightarrow> Inl e
                          | Inr row \<Rightarrow>
                              Inr (ai\<lparr>q_table :=
                                     (ensure_state (ensure_state (q_table ai) old_state)
                                        new_state)(old_state \<mapsto> row)\<rparr>))))))"
  by (simp only: bellman_update_def ensure_state_def Let_def)

lemma bellman_update_value:
  assumes "0 \<le> action" and "action < 3"
    and "length (row_or_zeros (q_table ai) old_state) = 3"
    and "length (row_or_zeros (q_table ai) new_state) = 3"
  shows "bellman_update ai old_state action reward new_state =
      Inr (ai\<lparr>q_table :=
             (ensure_state (ensure_state (q_table ai) old_state) new_state)
               (old_state \<mapsto>
                  (row_or_zeros (q_table ai) old_state)
                    [nat action :=
                       row_or_zeros (q_table ai) old_state ! nat action +
                       learning_rate ai *
                         (reward +
                          discount_factor ai * Max (set (row_or_zeros (q_table ai) new_state)) -
                          row_or_zeros (q_table ai) old_state ! nat action)])\<rparr>)"
proof -
  let ?q2 = "ensure_state (ensure_state (q_table ai) old_state) new_state"
  let ?old = "row_or_zeros (q_table ai) old_state"
  let ?new = "row_or_zeros (q_table ai) new_state"
  have o: "dict_get ?q2 old_state = Inr ?old"
    by (auto simp: dict_get_def ensure_state_def row_or_zeros_def split: option.splits)
  have n: "dict_get ?q2 new_state = Inr ?new"
    by (auto simp: dict_get_def ensure_state_def row_or_zeros_def split: option.splits)
  have g: "list_get ?old action = Inr (?old ! nat action)"
    using assms by (simp add: list_get_def list_index_in_range)
  have s: "\<And>v. list_set ?old action v = Inr (?old[nat action := v])"
    using assms by (simp add: list_set_def list_index_in_range)
  have m: "np_max ?new = Inr (Max (set ?new))"
    using assms by (intro np_max_Max) auto
  show ?thesis
    by (simp add: bellman_update_ensure o n g s m)
qed

text \<open>
  Claim C4. For every pair of states and every action index 0, 1 or 2, on rows of three
  values: the update inserts a row of zeros for each of the two states that is absent,
  and then sets the old state's value of the action to its old value plus
  \<open>learning_rate * (reward + discount_factor * max(next row) - old value)\<close>, leaving every
  other entry as it was. When both states are absent, the value after one update with
  reward \<open>R\<close> is \<open>0 + learning_rate * R\<close>.
\<close>

theorem bellman_update_spec:
  "(0 \<le> action \<and> action < 3 \<and>
    length (row_or_zeros (q_table ai) old_state) = 3 \<and>
    length (row_or_zeros (q_table ai) new_state) = 3 \<longrightarrow>
    bellman_update ai old_state action reward new_state =
      Inr (ai\<lparr>q_table :=
             (ensure_state (ensure_state (q_table ai) old_state) new_state)
               (old_state \<mapsto>
                  (row_or_zeros (q_table ai) old_state)
                    [nat action :=
                       row_or_zeros (q_table ai) old_state ! nat action +
                       learning_rate ai *
                         (reward +
                          discount_factor ai * Max (set (row_or_zeros (q_table ai) new_state)) -
                          row_or_zeros (q_table ai) old_state ! nat action)])\<rparr>)) \<and>
   (0 \<le> action \<and> action < 3 \<and>
    q_table ai old_state = None \<and> q_table ai new_state = None \<longrightarrow>
    (\<exists>ai'. bellman_update ai old_state action reward new_state = Inr ai' \<and>
           dict_get (q_table ai') old_state =
             Inr ([0, 0, 0][nat action := 0 + learning_rate ai * reward])))"
proof (intro conjI impI)
  assume h: "0 \<le> action \<and> action < 3 \<and>
    length (row_or_zeros (q_table ai) old_state) = 3 \<and>
    length (row_or_zeros (q_table ai) new_state) = 3"
  then show "bellman_update ai old_state action reward new_state =
      Inr (ai\<lparr>q_table :=
             (ensure_state (ensure_state (q_table ai) old_state) new_state)
               (old_state \<mapsto>
                  (row_or_zeros (q_table ai) old_state)
                    [nat action :=
                       row_or_zeros (q_table ai) old_state ! nat action +
                       learning_rate ai *
                         (reward +
                          discount_factor ai * Max (set (row_or_zeros (q_table ai) new_state)) -
                          row_or_zeros (q_table ai) old_state ! nat action)])\<rparr>)"
    by (intro bellman_update_value) auto
next
  assume h: "0 \<le> action \<and> action < 3 \<and>
    q_table ai old_state = None \<and> q_table ai new_state = None"
  then have z: "row_or_zeros (q_table ai) old_state = [0, 0, 0]"
    "row_or_zeros (q_table ai) new_state = [0, 0, 0]"
    by (simp_all add: row_or_zeros_def)
  from h have a: "nat action < 3" by auto
  then have zz: "[0, 0, 0 :: real] ! nat action = 0"
    by (auto simp: less_Suc_eq numeral_3_eq_3)
  have "bellman_update ai old_state action reward new_state =
      Inr (ai\<lparr>q_table :=
             (ensure_state (ensure_state (q_table ai) old_state) new_state)
               (old_state \<mapsto> [0, 0, 0][nat action := 0 + learning_rate ai * reward])\<rparr>)"
    using bellman_update_value [of action ai old_state new_state reward] h
    by (simp add: z zz del: list_update.simps)
  then show "\<exists>ai'. bellman_update ai old_state action reward new_state = Inr ai' \<and>
           dict_get (q_table ai') old_state =
             Inr ([0, 0, 0][nat action := 0 + learning_rate ai * reward])"
    by (simp add: dict_get_def)
qed

theorem bellman_update_spec_witness:
  "bellman_update SnakeAI_init example_state 1 10 other_state =
     Inr (SnakeAI_init\<lparr>q_table :=
            [other_state \<mapsto> [0, 0, 0], example_state \<mapsto> [0, 1 / 2, 0]]\<rparr>) \<and>
   (\<exists>ai'. bellman_update SnakeAI_init example_state 1 10 other_state = Inr ai' \<and>
          dict_get (q_table ai') example_state = Inr [0, 1 / 2, 0])"
  using bellman_update_spec [of 1 SnakeAI_init example_state other_state 10]
  by (simp add: SnakeAI_init_def row_or_zeros_def ensure_state_def dict_get_def
        example_state_def other_state_def fun_upd_twist)






section \<open>The decay of epsilon\<close>

text \<open>
  \<open>0.998 ^ 2300\<close> is still above 0.01 and \<open>0.998 ^ 2301\<close> is below: both by bounds
  on \<open>0.998 ^ 10\<close> and \<open>0.998 ^ 100\<close> to twelve digits.
\<close>

lemma decay_pow_2300: "(0.01::real) < 0.998 ^ 2300"
proof -
  have a: "(0.980179043351::real) \<le> 0.998 ^ 10" by (simp add: power_divide)
  have b: "(0.81856680468::real) \<le> 0.980179043351 ^ 10" by (simp add: power_divide)
  have c: "(0.01::real) < 0.81856680468 ^ 23" by (simp add: power_divide)
  have "(0.81856680468::real) \<le> (0.998 ^ 10) ^ 10"
    using b power_mono [OF a, of 10] by simp
  then have "(0.81856680468::real) ^ 23 \<le> ((0.998 ^ 10) ^ 10) ^ 23"
    by (intro power_mono) simp_all
  also have "((0.998::real) ^ 10) ^ 10 = 0.998 ^ 100" by (simp only: power_mult [symmetric]) simp
  also have "((0.998::real) ^ 100) ^ 23 = 0.998 ^ 2300" by (simp only: power_mult [symmetric]) simp
  finally show ?thesis using c by simp
qed

lemma decay_pow_2301: "(0.998::real) ^ 2301 < 0.01"
proof -
  have a: "(0.998::real) ^ 10 \<le> 0.980179043352" by (simp add: power_divide)
  have b: "(0.980179043352::real) ^ 10 \<le> 0.818566804689" by (simp add: power_divide)
  have c: "(0.818566804689::real) ^ 23 * 0.998 < 0.01" by (simp add: power_divide)
  have "((0.998::real) ^ 10) ^ 10 \<le> 0.980179043352 ^ 10"
    using a by (intro power_mono) simp_all
  with b have "((0.998::real) ^ 10) ^ 10 \<le> 0.818566804689" by simp
  then have "(((0.998::real) ^ 10) ^ 10) ^ 23 \<le> 0.818566804689 ^ 23"
    by (intro power_mono) simp_all
  moreover have "(((0.998::real) ^ 10) ^ 10) ^ 23 = 0.998 ^ 2300"
    by (simp only: power_mult [symmetric]) simp
  ultimately have "(0.998::real) ^ 2300 \<le> 0.818566804689 ^ 23" by simp
  then have "(0.998::real) ^ 2300 * 0.998 \<le> 0.818566804689 ^ 23 * 0.998" by simp
  moreover have "(0.998::real) ^ 2301 = 0.998 ^ 2300 * 0.998"
    using power_Suc2 [of "0.998::real" 2300] by simp
  ultimately show ?thesis using c by simp
qed

lemma decay_epsilon_funpow:
  assumes "0 < epsilon_decay ai" and "epsilon_decay ai \<le> 1" and "0 \<le> epsilon ai"
    and "epsilon_min ai < epsilon ai * epsilon_decay ai ^ n"
  shows "k \<le> Suc n \<Longrightarrow>
         (decay_epsilon ^^ k) ai = ai\<lparr>epsilon := epsilon ai * epsilon_decay ai ^ k\<rparr>"
proof (induction k)
  case 0
  then show ?case by simp
next
  case (Suc k)
  then have k: "k \<le> n" by simp
  have "epsilon_decay ai ^ n \<le> epsilon_decay ai ^ k"
    using k assms(1,2) by (intro power_decreasing) simp_all
  then have "epsilon ai * epsilon_decay ai ^ n \<le> epsilon ai * epsilon_decay ai ^ k"
    using assms(3) by (intro mult_left_mono)
  with assms(4) have "epsilon_min ai < epsilon ai * epsilon_decay ai ^ k" by simp
  with Suc show ?case by (simp add: decay_epsilon_def mult.assoc)
qed

lemma decay_epsilon_at_floor:
  "epsilon ai \<le> epsilon_min ai \<Longrightarrow> (decay_epsilon ^^ k) ai = ai"
  by (induction k) (simp_all add: decay_epsilon_def)

lemma epsilon_after_episodes:
  "epsilon ((decay_epsilon ^^ n) SnakeAI_init) = 0.998 ^ min n 2301"
proof (cases "n \<le> 2301")
  case True
  have "(decay_epsilon ^^ n) SnakeAI_init =
          SnakeAI_init\<lparr>epsilon := epsilon SnakeAI_init * epsilon_decay SnakeAI_init ^ n\<rparr>"
    using True decay_pow_2300
    by (intro decay_epsilon_funpow [where n = 2300]) (simp_all add: SnakeAI_init_def)
  with True show ?thesis by (simp add: SnakeAI_init_def min_def)
next
  case False
  define ai where "ai = (decay_epsilon ^^ 2301) SnakeAI_init"
  have ai: "ai = SnakeAI_init\<lparr>epsilon := epsilon SnakeAI_init * epsilon_decay SnakeAI_init ^ 2301\<rparr>"
    unfolding ai_def using decay_pow_2300
    by (intro decay_epsilon_funpow [where n = 2300]) (simp_all add: SnakeAI_init_def)
  have low: "epsilon ai \<le> epsilon_min ai"
    using decay_pow_2301 by (simp add: ai SnakeAI_init_def)
  from False obtain m where n: "n = m + 2301" by (metis add.commute le_Suc_ex nat_le_linear)
  have "(decay_epsilon ^^ n) SnakeAI_init = (decay_epsilon ^^ m) ai"
    by (simp add: n funpow_add ai_def)
  also have "\<dots> = ai" by (rule decay_epsilon_at_floor [OF low])
  finally show ?thesis using False by (simp add: ai SnakeAI_init_def min_def)
qed

text \<open>
  Claim C1. The code multiplies epsilon by the decay while it is above the floor, so
  the last multiplication takes it below: after 2301 episodes epsilon is
  \<open>0.998 ^ 2301\<close>, less than the floor 0.01 and not \<open>max(0.01, 1.0 * 0.998 ^ 2301)\<close>;
  it keeps that value from then on (\<open>epsilon_after_episodes\<close>).
\<close>

theorem epsilon_falls_below_floor:
  "epsilon ((decay_epsilon ^^ 2301) SnakeAI_init) < epsilon_min SnakeAI_init \<and>
   epsilon ((decay_epsilon ^^ 2301) SnakeAI_init) \<noteq>
     max (epsilon_min SnakeAI_init) (epsilon SnakeAI_init * epsilon_decay SnakeAI_init ^ 2301)"
proof -
  have e: "epsilon ((decay_epsilon ^^ 2301) SnakeAI_init) = 0.998 ^ 2301"
    using epsilon_after_episodes [of 2301] by simp
  show ?thesis
    unfolding e using decay_pow_2301 by (simp add: SnakeAI_init_def max_def)
qed

section \<open>The training loop\<close>

subsection \<open>One round\<close>

lemma apply_action_score [simp]:
  "score (apply_action gm a) = score gm" "game_over (apply_action gm a) = game_over gm"
  by (simp_all add: apply_action_def set_direction_def Let_def)

lemma update_score_game_over:
  "update gm g = Inr (gm1, g1) \<Longrightarrow> score gm < score gm1 \<Longrightarrow> \<not> game_over gm1"
  by (auto simp: update_def Let_def split: if_splits sum.splits list.splits prod.splits)

lemma get_action_params:
  "get_action ai st g = Inr (a, ai1, g1) \<Longrightarrow>
     ai1 = ai \<or> ai1 = ai\<lparr>q_table := ensure_state (q_table ai) st\<rparr>"
  by (auto simp: get_action_def ensure_state_def Let_def
           split: if_splits sum.splits prod.splits)

lemma ensure_state_idem [simp]: "ensure_state (ensure_state q s) s = ensure_state q s"
  by (simp add: ensure_state_def)

lemma bellman_update_after_ensure:
  "bellman_update (ai\<lparr>q_table := ensure_state (q_table ai) old_state\<rparr>)
     old_state action reward new_state =
   bellman_update ai old_state action reward new_state"
  by (simp add: bellman_update_ensure cong: sum.case_cong)

lemma bellman_update_params:
  "bellman_update ai old_state action reward new_state = Inr ai' \<Longrightarrow>
     ai' = ai\<lparr>q_table := q_table ai'\<rparr>"
  by (auto simp: bellman_update_def Let_def split: sum.splits)

lemma reward_policy_cases:
  assumes "reward_policy gm1 old_score new_score steps = (reward, steps1, gm2)"
  shows "(game_over gm2 \<longleftrightarrow> reward = -10) \<and> (game_over gm1 \<longrightarrow> game_over gm2) \<and>
         score gm2 = score gm1 \<and>
         (\<not> game_over gm1 \<and> old_score < new_score \<longrightarrow> steps1 = 0 \<and> reward = 10) \<and>
         (\<not> game_over gm1 \<and> new_score \<le> old_score \<longrightarrow>
            steps1 = steps + 1 \<and> (game_over gm2 \<longleftrightarrow> 100 < steps + 1)) \<and>
         (0 \<le> steps \<longrightarrow> 0 \<le> steps1)"
  using assms by (auto simp: reward_policy_def Let_def split: if_splits)

lemma train_tick_facts:
  assumes "train_tick ai gm steps g = Inr (ai', gm', steps', g', t)"
  shows "bellman_update ai (tr_old_state t) (tr_action t) (tr_reward t) (tr_new_state t) = Inr ai'"
    and "ai' = ai\<lparr>q_table := q_table ai'\<rparr>"
    and "tr_table_before t = q_table ai"
    and "tr_steps_without_fruit t = steps'"
    and "tr_old_score t = score gm"
    and "game_over gm' \<longleftrightarrow> tr_reward t = -10"
    and "tr_terminal t \<longrightarrow> game_over gm'"
    and "tr_old_score t < tr_new_score t \<longrightarrow> steps' = 0 \<and> tr_reward t = 10 \<and> \<not> game_over gm'"
    and "\<not> tr_terminal t \<and> tr_new_score t \<le> tr_old_score t \<longrightarrow>
           steps' = steps + 1 \<and> (game_over gm' \<longleftrightarrow> 100 < steps + 1)"
    and "0 \<le> steps \<longrightarrow> 0 \<le> steps'"
proof -
  from assms obtain old_state action ai1 g1 gm1 new_state reward where
    gs: "get_state gm = Inr old_state"
    and ga: "get_action ai old_state g = Inr (action, ai1, g1)"
    and up: "update (apply_action gm action) g1 = Inr (gm1, g')"
    and ns: "get_state gm1 = Inr new_state"
    and rp: "reward_policy gm1 (score gm) (score gm1) steps = (reward, steps', gm')"
    and bu: "bellman_update ai1 old_state action reward new_state = Inr ai'"
    and t: "t = \<lparr>tr_old_state = old_state, tr_old_score = score gm,
                  tr_action = action, tr_new_state = new_state,
                  tr_new_score = score gm1,
                  tr_terminal = game_over gm1, tr_reward = reward,
                  tr_steps_without_fruit = steps',
                  tr_table_before = q_table ai\<rparr>"
    by (auto simp: train_tick_def Let_def split: sum.splits prod.splits)
  note rc = reward_policy_cases [OF rp]
  from get_action_params [OF ga] bu
  have b: "bellman_update ai old_state action reward new_state = Inr ai'"
    by (auto simp: bellman_update_after_ensure)
  then show "bellman_update ai (tr_old_state t) (tr_action t) (tr_reward t) (tr_new_state t) = Inr ai'"
    by (simp add: t)
  from bellman_update_params [OF b] show "ai' = ai\<lparr>q_table := q_table ai'\<rparr>" .
  show "tr_table_before t = q_table ai" "tr_steps_without_fruit t = steps'"
    "tr_old_score t = score gm"
    by (simp_all add: t)
  from rc show "game_over gm' \<longleftrightarrow> tr_reward t = -10" "tr_terminal t \<longrightarrow> game_over gm'"
    "0 \<le> steps \<longrightarrow> 0 \<le> steps'"
    by (auto simp: t)
  have inc: "score gm < score gm1 \<longrightarrow> \<not> game_over gm1"
    using update_score_game_over [OF up] by simp
  with rc show "tr_old_score t < tr_new_score t \<longrightarrow> steps' = 0 \<and> tr_reward t = 10 \<and> \<not> game_over gm'"
    by (auto simp: t)
  from rc show "\<not> tr_terminal t \<and> tr_new_score t \<le> tr_old_score t \<longrightarrow>
           steps' = steps + 1 \<and> (game_over gm' \<longleftrightarrow> 100 < steps + 1)"
    by (auto simp: t)
qed

subsection \<open>The loop and its transitions\<close>

lemma train_loop_over:
  "game_over gm \<Longrightarrow> train_loop ai gm steps g = Inr (ai, gm, steps, g, [])"
  by (simp add: train_loop.simps)

lemma train_loop_step:
  assumes "\<not> game_over gm"
    and "train_loop ai gm steps g = Inr (ai', gm', steps', g', ts)"
  obtains ai1 gm1 steps1 g1 t ts1 where
    "train_tick ai gm steps g = Inr (ai1, gm1, steps1, g1, t)"
    "train_loop ai1 gm1 steps1 g1 = Inr (ai', gm', steps', g', ts1)"
    "ts = t # ts1"
  using assms
  by (subst (asm) train_loop.simps) (auto split: sum.splits prod.splits)

lemma train_loop_trace:
  "train_loop ai gm steps g = Inr (ai', gm', steps', g', ts) \<Longrightarrow>
   game_over gm' \<and> ai' = ai\<lparr>q_table := q_table ai'\<rparr> \<and>
   (\<not> game_over gm \<longrightarrow>
      ts \<noteq> [] \<and> tr_reward (last ts) = -10 \<and>
      bellman_update (ai\<lparr>q_table := tr_table_before (last ts)\<rparr>)
        (tr_old_state (last ts)) (tr_action (last ts)) (tr_reward (last ts))
        (tr_new_state (last ts)) = Inr ai' \<and>
      list_all (\<lambda>t. \<not> tr_terminal t) (butlast ts))"
proof (induction ai gm steps g arbitrary: ts rule: train_loop.induct)
  case (1 ai gm steps g)
  show ?case
  proof (cases "game_over gm")
    case True
    with "1.prems" show ?thesis by (simp add: train_loop_over)
  next
    case False
    from train_loop_step [OF False "1.prems"]
    obtain ai1 gm1 steps1 g1 t ts1 where
      tick: "train_tick ai gm steps g = Inr (ai1, gm1, steps1, g1, t)"
      and rest: "train_loop ai1 gm1 steps1 g1 = Inr (ai', gm', steps', g', ts1)"
      and ts: "ts = t # ts1"
      by blast
    note tf = train_tick_facts [OF tick]
    from "1.IH" [OF False tick refl refl refl refl rest]
    have ih: "game_over gm' \<and> ai' = ai1\<lparr>q_table := q_table ai'\<rparr> \<and>
      (\<not> game_over gm1 \<longrightarrow>
        ts1 \<noteq> [] \<and> tr_reward (last ts1) = -10 \<and>
        bellman_update (ai1\<lparr>q_table := tr_table_before (last ts1)\<rparr>)
          (tr_old_state (last ts1)) (tr_action (last ts1)) (tr_reward (last ts1))
          (tr_new_state (last ts1)) = Inr ai' \<and>
        list_all (\<lambda>t. \<not> tr_terminal t) (butlast ts1))" .
    have a1: "ai1\<lparr>q_table := q\<rparr> = ai\<lparr>q_table := q\<rparr>" for q
      by (subst tf(2)) simp
    show ?thesis
    proof (cases "game_over gm1")
      case True
      with rest have "ts1 = []" "ai' = ai1" by (simp_all add: train_loop_over)
      with True tf ih show ?thesis by (simp add: ts False)
    next
      case over: False
      with tf(7) have "\<not> tr_terminal t" by blast
      with over ih a1 show ?thesis by (auto simp: ts False)
    qed
  qed
qed




lemma q_table_decay_epsilon [simp]: "q_table (decay_epsilon ai) = q_table ai"
  by (simp add: decay_epsilon_def)

lemma Game_init_not_over: "Game_init w h vis g = Inr (gm, g1) \<Longrightarrow> \<not> game_over gm"
  by (cases "Fruit_init w h 20 g") (auto simp: Game_init_def Let_def)

lemma train_game_elim:
  assumes "train_game ai g = Inr (ai', gm', g', ts)"
  obtains gm g1 ai1 steps1 where
    "Game_init 800 600 False g = Inr (gm, g1)"
    "train_loop ai gm 0 g1 = Inr (ai1, gm', steps1, g', ts)"
    "ai' = decay_epsilon ai1"
    "\<not> game_over gm"
proof -
  from assms obtain gm g1 where gi: "Game_init 800 600 False g = Inr (gm, g1)"
    by (cases "Game_init 800 600 False g") (auto simp: train_game_def)
  with assms obtain ai1 steps1 where
    "train_loop ai gm 0 g1 = Inr (ai1, gm', steps1, g', ts)" "ai' = decay_epsilon ai1"
    by (cases "train_loop ai gm 0 g1") (auto simp: train_game_def)
  with gi Game_init_not_over [OF gi] that show ?thesis by blast
qed


subsection \<open>The two episodes, run\<close>

lemma replicate_numeral_unfold:
  "replicate (numeral k) x = x # replicate (pred_numeral k) x"
  by (simp add: numeral_eq_Suc)

lemmas run_defs = train_game_def train_loop.simps train_tick_def get_state_def get_action_def
  apply_action_def set_direction_def update_def move_def check_collision_def grow_def
  reward_policy_def bellman_update_def dict_get_def list_get_def list_set_def list_index_def
  np_max_def np_argmax_def random_random_def randint_def randrange_def choice_def
  wall_dangers_def segment_dangers_def Game_init_def Fruit_init_def respawn_def
  Snake_init_def SnakeAI_init_def decay_epsilon_def Let_def replicate_numeral_unfold

lemma wall_run:
  "\<exists>ai' gm' ts. train_game SnakeAI_init wall_draws = Inr (ai', gm', [], ts) \<and>
      length ts = 20 \<and> tr_terminal (last ts)"
  by (simp add: wall_draws_def run_defs)


subsection \<open>Stagnation\<close>




subsection \<open>The last update of an episode\<close>

text \<open>
  Claim C8. In every episode that returns, whether the simulation ended it or the
  stagnation limit did, no transition before the last was terminal, the last transition
  has the reward -10, and the table the learner has when the next episode starts is the
  very table that the update of this last transition with the reward -10 produced from
  the table the last round started with: nothing touches the table after it.
\<close>

theorem terminal_update_is_last:
  assumes "train_game ai g = Inr (ai', gm', g', ts)"
  shows "ts \<noteq> [] \<and> tr_reward (last ts) = -10 \<and>
         list_all (\<lambda>t. \<not> tr_terminal t) (butlast ts) \<and>
         (\<exists>ai_last.
            bellman_update (ai\<lparr>q_table := tr_table_before (last ts)\<rparr>)
              (tr_old_state (last ts)) (tr_action (last ts)) (-10)
              (tr_new_state (last ts)) = Inr ai_last \<and>
            q_table ai' = q_table ai_last)"
proof -
  from assms obtain gm g1 ai1 steps1 where
    init: "Game_init 800 600 False g = Inr (gm, g1)"
    and loop: "train_loop ai gm 0 g1 = Inr (ai1, gm', steps1, g', ts)"
    and ai': "ai' = decay_epsilon ai1"
    and start: "\<not> game_over gm"
    by (rule train_game_elim)
  note k = train_loop_trace [OF loop, THEN conjunct2, THEN conjunct2, THEN mp, OF start]
  note a = k [THEN conjunct1]
    and b = k [THEN conjunct2, THEN conjunct1]
    and c = k [THEN conjunct2, THEN conjunct2, THEN conjunct1]
    and d = k [THEN conjunct2, THEN conjunct2, THEN conjunct2]
  from c have c': "bellman_update (ai\<lparr>q_table := tr_table_before (last ts)\<rparr>)
        (tr_old_state (last ts)) (tr_action (last ts)) (-10)
        (tr_new_state (last ts)) = Inr ai1"
    unfolding b .
  show ?thesis using a b d c' ai' by simp
qed

theorem terminal_update_is_last_witness:
  "\<exists>ai' gm' ts. train_game SnakeAI_init wall_draws = Inr (ai', gm', [], ts) \<and>
      tr_terminal (last ts) \<and> tr_reward (last ts) = -10 \<and>
      list_all (\<lambda>t. \<not> tr_terminal t) (butlast ts) \<and>
      (\<exists>ai_last.
         bellman_update (SnakeAI_init\<lparr>q_table := tr_table_before (last ts)\<rparr>)
           (tr_old_state (last ts)) (tr_action (last ts)) (-10)
           (tr_new_state (last ts)) = Inr ai_last \<and>
         q_table ai' = q_table ai_last)"
proof -
  from wall_run obtain ai' gm' ts where
    run: "train_game SnakeAI_init wall_draws = Inr (ai', gm', [], ts)"
    and coll: "tr_terminal (last ts)"
    by blast
  from terminal_update_is_last [OF run] run coll show ?thesis by blast
qed

subsection \<open>Epsilon over a whole training\<close>

text \<open>
  Nothing but the decay at the end of an episode changes epsilon, so after a training of
  \<open>n\<close> episodes that returns, epsilon is what \<open>n\<close> decays make of it.
\<close>

lemma decay_epsilon_q_table:
  "decay_epsilon (ai\<lparr>q_table := q\<rparr>) = (decay_epsilon ai)\<lparr>q_table := q\<rparr>"
  by (simp add: decay_epsilon_def)

lemma funpow_decay_epsilon_q_table:
  "(decay_epsilon ^^ n) (ai\<lparr>q_table := q\<rparr>) = ((decay_epsilon ^^ n) ai)\<lparr>q_table := q\<rparr>"
  by (induction n) (simp_all add: decay_epsilon_q_table)

lemma train_game_params:
  assumes "train_game ai g = Inr (ai', gm', g', ts)"
  shows "ai' = (decay_epsilon ai)\<lparr>q_table := q_table ai'\<rparr>"
proof -
  from assms obtain gm g1 ai1 steps1 where
    init: "Game_init 800 600 False g = Inr (gm, g1)"
    and loop: "train_loop ai gm 0 g1 = Inr (ai1, gm', steps1, g', ts)"
    and ai': "ai' = decay_epsilon ai1"
    and start: "\<not> game_over gm"
    by (rule train_game_elim)
  note p = train_loop_trace [OF loop, THEN conjunct2, THEN conjunct1]
  have "ai' = decay_epsilon (ai\<lparr>q_table := q_table ai1\<rparr>)"
    unfolding ai' by (subst p) (rule refl)
  then show ?thesis by (simp add: decay_epsilon_q_table ai')
qed

lemma train_params:
  "train ai n g = Inr (ai', g') \<Longrightarrow>
   ai' = ((decay_epsilon ^^ n) ai)\<lparr>q_table := q_table ai'\<rparr>"
proof (induction n arbitrary: ai g)
  case 0
  then show ?case by simp
next
  case (Suc n)
  from Suc.prems obtain ai1 gm1 g1 ts where
    game: "train_game ai g = Inr (ai1, gm1, g1, ts)"
    and rest: "train ai1 n g1 = Inr (ai', g')"
    by (cases "train_game ai g") auto
  from train_game_params [OF game]
  have a1: "ai1 = (decay_epsilon ai)\<lparr>q_table := q_table ai1\<rparr>" .
  have "(decay_epsilon ^^ n) ai1 =
          ((decay_epsilon ^^ n) (decay_epsilon ai))\<lparr>q_table := q_table ai1\<rparr>"
    by (subst a1) (rule funpow_decay_epsilon_q_table)
  also have "(decay_epsilon ^^ n) (decay_epsilon ai) = (decay_epsilon ^^ Suc n) ai"
    by (simp add: funpow_swap1)
  finally have "(decay_epsilon ^^ n) ai1 =
          ((decay_epsilon ^^ Suc n) ai)\<lparr>q_table := q_table ai1\<rparr>" .
  with Suc.IH [OF rest] show ?case by simp
qed

lemma train_epsilon:
  assumes "train SnakeAI_init n g = Inr (ai', g')"
  shows "epsilon ai' = 0.998 ^ min n 2301"
proof -
  have "epsilon ai' = epsilon (((decay_epsilon ^^ n) SnakeAI_init)\<lparr>q_table := q_table ai'\<rparr>)"
    by (subst train_params [OF assms]) (rule refl)
  then show ?thesis by (simp add: epsilon_after_episodes)
qed

end
